theory Spec2Isabelle
  imports Complex_Main
begin

section \<open>Strings\<close>

text \<open>
  A Python \<open>str\<close> is modelled as a \<open>string\<close>; one \<open>char\<close> stands for one code point,
  so \<open>length\<close> is Python's \<open>len\<close> on texts whose code points are below 256.
  \<open>isspace\<close> holds of the code points in that range that \<open>str.strip()\<close> removes.
\<close>

definition isspace :: "char \<Rightarrow> bool" where
  "isspace c = (of_char c \<in> set [9, 10, 11, 12, 13, 28, 29, 30, 31, 32, 133, 160 :: nat])"

definition strip :: "string \<Rightarrow> string" where
  "strip s = rev (dropWhile isspace (rev (dropWhile isspace s)))"

text \<open>\<open>text.split('\n')\<close>: the pieces between line feeds, one piece for a text without any.\<close>

fun split_nl :: "string \<Rightarrow> string list" where
  "split_nl [] = [[]]"
| "split_nl (c # cs) =
     (if c = CHR 0x0A then [] # split_nl cs
      else (case split_nl cs of [] \<Rightarrow> [[c]] | p # ps \<Rightarrow> (c # p) # ps))"

text \<open>\<open>sep.join(xs)\<close>.\<close>

fun str_join :: "string \<Rightarrow> string list \<Rightarrow> string" where
  "str_join sep [] = []"
| "str_join sep [s] = s"
| "str_join sep (s # ss) = s @ sep @ str_join sep ss"

text \<open>The decimal digits of a number, as an f-string prints it.\<close>

fun str_nat :: "nat \<Rightarrow> string" where
  "str_nat n =
     (if n < 10 then [char_of (48 + n)] else str_nat (n div 10) @ [char_of (48 + n mod 10)])"

declare str_nat.simps [simp del]

section \<open>The chunker of \<open>process_document\<close>\<close>

text \<open>
  The loop over \<open>paragraphs\<close>, with the pair \<open>(chunks, current_chunk)\<close> as its state:
  a line whose stripped length is below 5 is skipped; if the lengths of the buffer and of
  the line add up to more than 500 the buffer is saved (when it is not empty) and the
  line starts the next one; otherwise the line is appended, after a space when the buffer
  is not empty.
\<close>

fun chunk_loop :: "string list \<Rightarrow> string list \<times> string \<Rightarrow> string list \<times> string" where
  "chunk_loop [] (chunks, current_chunk) = (chunks, current_chunk)"
| "chunk_loop (paragraph # rest) (chunks, current_chunk) =
     (if length (strip paragraph) < 5 then chunk_loop rest (chunks, current_chunk)
      else if length current_chunk + length paragraph > 500 then
        chunk_loop rest
          (if current_chunk \<noteq> [] then chunks @ [strip current_chunk] else chunks, paragraph)
      else
        chunk_loop rest
          (chunks, if current_chunk \<noteq> [] then current_chunk @ '' '' @ paragraph else paragraph))"

definition make_chunks :: "string \<Rightarrow> string list" where
  "make_chunks text =
     (case chunk_loop (split_nl text) ([], []) of
        (chunks, current_chunk) \<Rightarrow>
          if current_chunk \<noteq> [] then chunks @ [strip current_chunk] else chunks)"

subsection \<open>The accumulation algorithm as the specification words it\<close>

text \<open>
  Segments are the lines whose stripped length is at least 5. A buffer is extended by a
  segment with \<open>append_segment\<close>; \<open>accumulate\<close> closes the buffer when the test
  \<open>over\<close> says that the next segment overflows it, and flushes the last buffer when it is
  not empty. An empty buffer is never emitted: the length check only triggers on
  concatenation.
\<close>

definition segments :: "string \<Rightarrow> string list" where
  "segments text = filter (\<lambda>s. 5 \<le> length (strip s)) (split_nl text)"

definition append_segment :: "string \<Rightarrow> string \<Rightarrow> string" where
  "append_segment buf s = (if buf = [] then s else buf @ '' '' @ s)"

definition close_buffer :: "string \<Rightarrow> string list" where
  "close_buffer buf = (if buf = [] then [] else [strip buf])"

fun accumulate :: "(string \<Rightarrow> string \<Rightarrow> bool) \<Rightarrow> string \<Rightarrow> string list \<Rightarrow> string list" where
  "accumulate over buf [] = close_buffer buf"
| "accumulate over buf (s # ss) =
     (if over buf s then close_buffer buf @ accumulate over s ss
      else accumulate over (append_segment buf s) ss)"

text \<open>The test in the specification's words: appending would make the buffer longer than 500.\<close>

definition over_appended :: "string \<Rightarrow> string \<Rightarrow> bool" where
  "over_appended buf s = (length (append_segment buf s) > 500)"

definition chunk_spec :: "string \<Rightarrow> string list" where
  "chunk_spec text = accumulate over_appended [] (segments text)"

text \<open>The test the code makes: the two lengths, without the separating space.\<close>

definition over_sum :: "string \<Rightarrow> string \<Rightarrow> bool" where
  "over_sum buf s = (length buf + length s > 500)"

definition chunk_reference :: "string \<Rightarrow> string list" where
  "chunk_reference text = accumulate over_sum [] (segments text)"

subsection \<open>The segments behind each chunk\<close>

text \<open>
  The same loop, keeping the list of lines that make up the buffer instead of the buffer
  itself; \<open>join_segments\<close> rebuilds the buffer from them. \<open>group_inv\<close> is what the
  loop keeps true of its state.
\<close>

definition join_segments :: "string list \<Rightarrow> string" where
  "join_segments g = str_join '' '' g"

fun group_loop :: "string list \<Rightarrow> string list list \<times> string list \<Rightarrow> string list list \<times> string list" where
  "group_loop [] (groups, current) = (groups, current)"
| "group_loop (paragraph # rest) (groups, current) =
     (if length (strip paragraph) < 5 then group_loop rest (groups, current)
      else if length (join_segments current) + length paragraph > 500 then
        group_loop rest (if current \<noteq> [] then groups @ [current] else groups, [paragraph])
      else group_loop rest (groups, current @ [paragraph]))"

definition chunk_groups :: "string \<Rightarrow> string list list" where
  "chunk_groups text =
     (case group_loop (split_nl text) ([], []) of
        (groups, current) \<Rightarrow> if current \<noteq> [] then groups @ [current] else groups)"

definition group_inv :: "string list list \<Rightarrow> string list \<Rightarrow> bool" where
  "group_inv groups current \<longleftrightarrow>
     [] \<notin> set current \<and>
     (\<forall>g \<in> set groups. 2 \<le> length g \<longrightarrow> length (join_segments g) \<le> 501) \<and>
     (2 \<le> length current \<longrightarrow> length (join_segments current) \<le> 501)"

definition scenario_text :: string where
  "scenario_text =
     ''Title'' @ [CHR 0x0A, CHR 0x0A] @ ''Paragraph one text here.'' @ [CHR 0x0A]
       @ ''Paragraph two text here.'' @ [CHR 0x0A]"

definition boundary_text :: string where
  "boundary_text = replicate 250 CHR ''a'' @ [CHR 0x0A] @ replicate 250 CHR ''b''"

section \<open>The retriever: \<open>find_relevant_chunks\<close>\<close>

datatype exn =
    ValueError
  | AxisError
  | IndexError
  | KeyError
  | LibraryError string
  | HTTPException nat string "exn option"

text \<open>
  \<open>LibraryError m\<close> is an exception raised by a library, \<open>m\<close> being its \<open>str(e)\<close>.
  \<open>HTTPException status detail cause\<close> carries the status code and the detail; with
  \<open>Some e\<close> the detail is the given text followed by \<open>str(e)\<close>.

  Embedding vectors are lists of numbers and the arithmetic on them is exact. The array
  that the embedder returns for a batch of texts is the list of its rows; the empty list
  is the array of shape \<open>(0,)\<close>, with one axis and no entries, that it returns for the
  empty batch. A similarity is a number or NaN, which is what NumPy's division gives for
  \<open>0 / 0\<close> (with a warning, not an exception).
\<close>

datatype score = Num real | NaN

text \<open>The order in which NumPy sorts: numbers by value, NaN after every number.\<close>

instantiation score :: linorder
begin

fun less_eq_score :: "score \<Rightarrow> score \<Rightarrow> bool" where
  "less_eq_score (Num x) (Num y) = (x \<le> y)"
| "less_eq_score NaN (Num y) = False"
| "less_eq_score a NaN = True"

definition less_score :: "score \<Rightarrow> score \<Rightarrow> bool" where
  "less_score a b = (a \<le> b \<and> \<not> b \<le> a)"

instance
proof
  fix x y z :: score
  show "(x < y) = (x \<le> y \<and> \<not> y \<le> x)"
    by (simp add: less_score_def)
  show "x \<le> x"
    by (cases x) simp_all
  show "x \<le> y \<Longrightarrow> y \<le> z \<Longrightarrow> x \<le> z"
    by (cases x; cases y; cases z) simp_all
  show "x \<le> y \<Longrightarrow> y \<le> x \<Longrightarrow> x = y"
    by (cases x; cases y) simp_all
  show "x \<le> y \<or> y \<le> x"
    by (cases x; cases y) auto
qed

end

definition dot :: "real list \<Rightarrow> real list \<Rightarrow> real" where
  "dot v w = sum_list (map2 (*) v w)"

definition norm2 :: "real list \<Rightarrow> real" where
  "norm2 v = sqrt (sum_list (map (\<lambda>x. x * x) v))"

text \<open>
  One entry of \<open>np.dot(...) / (np.linalg.norm(..., axis=1) * np.linalg.norm(...))\<close>.
  A zero denominator comes with a zero numerator (\<open>dot_zero_norm\<close> below), so the
  only division by zero is \<open>0 / 0\<close>.
\<close>

definition cosine :: "real list \<Rightarrow> real list \<Rightarrow> score" where
  "cosine v q =
     (if norm2 v * norm2 q = 0 then NaN else Num (dot v q / (norm2 v * norm2 q)))"

text \<open>
  \<open>np.dot\<close> raises when the rows and the question vector differ in length. On the array
  of shape \<open>(0,)\<close> it raises too, the shapes not being aligned, unless the question
  vector is empty as well, and then \<open>np.linalg.norm\<close> raises for the missing axis 1.
\<close>

definition cosine_similarities :: "real list list \<Rightarrow> real list \<Rightarrow> exn + score list" where
  "cosine_similarities chunk_embeddings question_embedding =
     (if chunk_embeddings = [] then
        Inl (if question_embedding = [] then AxisError else ValueError)
      else if list_all (\<lambda>v. length v = length question_embedding) chunk_embeddings
      then Inr (map (\<lambda>v. cosine v question_embedding) chunk_embeddings)
      else Inl ValueError)"

text \<open>The slice \<open>xs[s:]\<close>: a negative \<open>s\<close> counts from the end.\<close>

definition slice_from :: "int \<Rightarrow> 'a list \<Rightarrow> 'a list" where
  "slice_from s xs =
     drop (if s < 0 then nat (max 0 (int (length xs) + s)) else nat s) xs"

text \<open>
  \<open>np.argsort\<close> is a parameter. What is known of it is \<open>argsort_ok\<close>: it returns the
  indices of the array, each once, in an order that sorts the values. Its default
  algorithm is not stable: nothing is known of the order in which it lists equal values.
  \<open>stable_argsort\<close> and \<open>reversing_argsort\<close> are two functions that meet \<open>argsort_ok\<close>;
  the first lists equal values by rising index, the second by falling index. They stand
  for \<open>np.argsort\<close> in the concrete cases, where all values differ, and show that
  \<open>argsort_ok\<close> leaves the order of equal values open.
\<close>

definition argsort_ok :: "(score list \<Rightarrow> nat list) \<Rightarrow> bool" where
  "argsort_ok srt \<longleftrightarrow>
     (\<forall>xs. distinct (srt xs) \<and> set (srt xs) = {0..<length xs} \<and>
           sorted (map ((!) xs) (srt xs)))"

definition stable_argsort :: "score list \<Rightarrow> nat list" where
  "stable_argsort xs = sort_key ((!) xs) [0..<length xs]"

definition reversing_argsort :: "score list \<Rightarrow> nat list" where
  "reversing_argsort xs = sort_key ((!) xs) (rev [0..<length xs])"

definition top_indices :: "(score list \<Rightarrow> nat list) \<Rightarrow> score list \<Rightarrow> int \<Rightarrow> nat list" where
  "top_indices srt similarities top_k = rev (slice_from (- top_k) (srt similarities))"

text \<open>
  \<open>enc\<close> is \<open>embedding_model.encode\<close>: a list of texts to the array of their vectors,
  or an exception. Indexing \<open>chunks\<close> out of range raises.
\<close>

definition find_relevant_chunks ::
  "(string list \<Rightarrow> exn + real list list) \<Rightarrow> (score list \<Rightarrow> nat list) \<Rightarrow>
   string list \<Rightarrow> real list list \<Rightarrow> string \<Rightarrow> int \<Rightarrow> exn + string list \<times> score list" where
  "find_relevant_chunks enc srt chunks chunk_embeddings question top_k =
     (case enc [question] of
        Inl e \<Rightarrow> Inl e
      | Inr [] \<Rightarrow> Inl IndexError
      | Inr (question_embedding # _) \<Rightarrow>
          (case cosine_similarities chunk_embeddings question_embedding of
             Inl e \<Rightarrow> Inl e
           | Inr similarities \<Rightarrow>
               let idx = top_indices srt similarities top_k in
               if list_all (\<lambda>i. i < length chunks) idx
               then Inr (map ((!) chunks) idx, map ((!) similarities) idx)
               else Inl IndexError))"

section \<open>The answer synthesizer: \<open>query_deepseek\<close>\<close>

text \<open>
  The body of the request is kept as the dictionary that \<open>json.dumps\<close> serialises.
  \<open>timeout\<close> is the keyword argument of \<open>requests.post\<close> of that name.
\<close>

record payload =
  model :: string
  messages :: "(string \<times> string) list"
  temperature :: real
  max_tokens :: nat

record http_request =
  url :: string
  headers :: "(string \<times> string) list"
  data :: payload
  timeout :: "real option"

text \<open>
  What the network does with a request: the backend answers with a status code and a
  body, the transport fails with an exception (its \<open>str(e)\<close> is kept), or nothing ever
  comes back. \<open>requests.post\<close> waits for as long as it takes unless it is given a
  timeout, so without one a silent backend means that the call does not return
  (\<open>None\<close>).
\<close>

datatype transport = Replies nat string | Breaks string | Silent

definition requests_post ::
  "(http_request \<Rightarrow> transport) \<Rightarrow> http_request \<Rightarrow> (string + nat \<times> string) option" where
  "requests_post net r =
     (case net r of
        Replies status_code body \<Rightarrow> Some (Inr (status_code, body))
      | Breaks m \<Rightarrow> Some (Inl m)
      | Silent \<Rightarrow> (case timeout r of None \<Rightarrow> None | Some t \<Rightarrow> Some (Inl ''timed out'')))"

text \<open>
  The process-wide state: the two dictionaries, the default credential, and the list of
  the requests posted so far (kept to tell whether a call was made). A stored document
  is the dictionary with the keys \<open>filename\<close>, \<open>path\<close>, \<open>text\<close> and \<open>chunks\<close>.
\<close>

record document =
  doc_filename :: string
  doc_path :: string
  doc_text :: string
  doc_chunks :: "string list"

record state =
  documents :: "string \<rightharpoonup> document"
  document_embeddings :: "string \<rightharpoonup> real list list"
  DEEPSEEK_API_KEY :: string
  sent :: "http_request list"

text \<open>
  The collaborators: the embedding model, \<open>np.argsort\<close>, the file system, the text
  extractor, the network, and the reading of \<open>choices[0].message.content\<close> out of a
  response body, which raises (\<open>Inl\<close>, with the message) on a body of another shape.
  \<open>save_upload\<close> is the writing of the upload to a path (\<open>open\<close> and
  \<open>shutil.copyfileobj\<close>) and \<open>remove_file\<close> is \<open>os.remove\<close>: each gives the exception
  it raises, if any.
\<close>

record env =
  encode :: "string list \<Rightarrow> exn + real list list"
  np_argsort :: "score list \<Rightarrow> nat list"
  save_upload :: "string \<Rightarrow> exn option"
  remove_file :: "string \<Rightarrow> exn option"
  extract_text :: "string \<Rightarrow> exn + string"
  network :: "http_request \<Rightarrow> transport"
  response_content :: "string \<Rightarrow> string + string"

definition DEEPSEEK_API_URL :: string where
  "DEEPSEEK_API_URL = ''https://api.deepseek.com/v1/chat/completions''"

definition nl :: string where
  "nl = [CHR 0x0A]"

definition build_prompt :: "string \<Rightarrow> string \<Rightarrow> string" where
  "build_prompt context question =
     ''Act'' @ [CHR 0xFA] @ ''a como un asistente experto que responde preguntas basadas en la informaci''
       @ [CHR 0xF3] @ ''n proporcionada.'' @ nl
     @ ''    '' @ nl
     @ ''CONTEXTO:'' @ nl
     @ context @ nl
     @ nl
     @ ''INSTRUCCIONES:'' @ nl
     @ ''- Responde la pregunta bas'' @ [CHR 0xE1] @ ''ndote '' @ [CHR 0xFA]
       @ ''nicamente en la informaci'' @ [CHR 0xF3] @ ''n del CONTEXTO proporcionado.'' @ nl
     @ ''- Si la informaci'' @ [CHR 0xF3] @ ''n no est'' @ [CHR 0xE1]
       @ '' en el CONTEXTO, indica honestamente que no puedes responder.'' @ nl
     @ ''- S'' @ [CHR 0xE9] @ '' conciso y directo en tus respuestas.'' @ nl
     @ ''- No inventes informaci'' @ [CHR 0xF3] @ ''n.'' @ nl
     @ nl
     @ ''PREGUNTA: '' @ question @ nl
     @ nl
     @ ''RESPUESTA:''"

definition build_request :: "string \<Rightarrow> string \<Rightarrow> string list \<Rightarrow> http_request" where
  "build_request api_key question context_chunks =
     \<lparr>url = DEEPSEEK_API_URL,
      headers = [(''Content-Type'', ''application/json''),
                 (''Authorization'', ''Bearer '' @ api_key)],
      data = \<lparr>model = ''deepseek-chat'',
              messages = [(''user'', build_prompt (str_join (nl @ nl) context_chunks) question)],
              temperature = 1 / 10,
              max_tokens = 500\<rparr>,
      timeout = None\<rparr>"

definition missing_key_message :: string where
  "missing_key_message = ''Error: API key de Deepseek no configurada.''"

definition backend_error_message :: "nat \<Rightarrow> string \<Rightarrow> string" where
  "backend_error_message status_code body =
     ''Error al consultar la API: '' @ str_nat status_code @ '' - '' @ body"

definition exception_message :: "string \<Rightarrow> string" where
  "exception_message e = ''Error al procesar la pregunta: '' @ e"

text \<open>
  \<open>query_deepseek\<close> reads the global credential. Every path that returns, returns a
  string: the answer, or one of the three messages above.
\<close>

definition query_deepseek ::
  "env \<Rightarrow> string \<Rightarrow> string list \<Rightarrow> state \<Rightarrow> (string \<times> state) option" where
  "query_deepseek ev question context_chunks st =
     (if DEEPSEEK_API_KEY st = [] then Some (missing_key_message, st)
      else
        let request = build_request (DEEPSEEK_API_KEY st) question context_chunks;
            st' = st\<lparr>sent := sent st @ [request]\<rparr>
        in case requests_post (network ev) request of
             None \<Rightarrow> None
           | Some (Inl e) \<Rightarrow> Some (exception_message e, st')
           | Some (Inr (status_code, body)) \<Rightarrow>
               if status_code = 200 then
                 (case response_content ev body of
                    Inl e \<Rightarrow> Some (exception_message e, st')
                  | Inr answer \<Rightarrow> Some (answer, st'))
               else Some (backend_error_message status_code body, st'))"

section \<open>The endpoints\<close>

definition process_document ::
  "(string list \<Rightarrow> exn + real list list) \<Rightarrow> string \<Rightarrow> exn + string list \<times> real list list" where
  "process_document enc text =
     (case enc (make_chunks text) of
        Inl e \<Rightarrow> Inl e
      | Inr chunk_embeddings \<Rightarrow> Inr (make_chunks text, chunk_embeddings))"

text \<open>
  \<open>upload_document\<close>. The identifier is the fresh \<open>uuid4\<close>. The upload is written to
  \<open>file_path\<close> first; an exception there goes to the outer handler, which raises status
  500. An exception of the extraction or of the processing goes to the inner handler,
  which removes the file and raises status 400; the outer handler catches that, or the
  exception of the removal, and raises status 500. What \<open>extract_text\<close> reads from the
  saved file with its libraries is what the collaborator \<open>extract_text\<close> returns for
  the path (an exception for a format it does not support); the files themselves are not
  part of the state. (In the source the first \<open>raise\<close> of the inner handler is a broken
  copy of the two lines around it; the model follows the intact lines: remove the file,
  raise status 400.)
\<close>

definition outer_failure :: "exn \<Rightarrow> exn" where
  "outer_failure e = HTTPException 500 ''Error al subir el documento: '' (Some e)"

definition inner_failure :: "exn \<Rightarrow> exn" where
  "inner_failure e = HTTPException 400 ''Error al procesar el documento: '' (Some e)"

definition handle_processing_error :: "env \<Rightarrow> string \<Rightarrow> exn \<Rightarrow> exn" where
  "handle_processing_error ev file_path e =
     (case remove_file ev file_path of
        Some removal_error \<Rightarrow> outer_failure removal_error
      | None \<Rightarrow> outer_failure (inner_failure e))"

definition upload_document ::
  "env \<Rightarrow> string \<Rightarrow> string \<Rightarrow> state \<Rightarrow> (exn + (string \<times> string) list) \<times> state" where
  "upload_document ev new_id name st =
     (let file_path = ''uploads/'' @ new_id @ ''_'' @ name in
      case save_upload ev file_path of
        Some e \<Rightarrow> (Inl (outer_failure e), st)
      | None \<Rightarrow>
          (case extract_text ev file_path of
             Inl e \<Rightarrow> (Inl (handle_processing_error ev file_path e), st)
           | Inr document_text \<Rightarrow>
               (case process_document (encode ev) document_text of
                  Inl e \<Rightarrow> (Inl (handle_processing_error ev file_path e), st)
                | Inr (chunks, chunk_embeddings) \<Rightarrow>
                    (Inr [(''document_id'', new_id),
                          (''message'', ''Documento subido correctamente'')],
                     st\<lparr>documents := (documents st)(new_id \<mapsto>
                            \<lparr>doc_filename = name, doc_path = file_path,
                             doc_text = document_text, doc_chunks = chunks\<rparr>),
                        document_embeddings :=
                          (document_embeddings st)(new_id \<mapsto> chunk_embeddings)\<rparr>))))"

text \<open>
  The request model \<open>Question\<close> declares two fields. A body is read into it field by
  field, and what else the body holds is dropped; \<open>getattr\<close> with a default gives the
  default for a name that is not a field.
\<close>

record Question =
  question :: string
  document_id :: string

definition parse_Question :: "(string \<times> string) list \<Rightarrow> Question option" where
  "parse_Question body =
     (case map_of body ''question'' of
        None \<Rightarrow> None
      | Some q \<Rightarrow>
          (case map_of body ''document_id'' of
             None \<Rightarrow> None
           | Some d \<Rightarrow> Some \<lparr>question = q, document_id = d\<rparr>))"

definition getattr_Question :: "Question \<Rightarrow> string \<Rightarrow> string option \<Rightarrow> string option" where
  "getattr_Question obj name fallback =
     (if name = ''question'' then Some (question obj)
      else if name = ''document_id'' then Some (document_id obj)
      else fallback)"

definition ask_failure :: "exn \<Rightarrow> exn" where
  "ask_failure e = HTTPException 500 ''Error al procesar la pregunta: '' (Some e)"

text \<open>The credential in force during the call: the request's own when it is a non-empty string.\<close>

definition override_key :: "string option \<Rightarrow> state \<Rightarrow> state" where
  "override_key api_key st =
     (case api_key of
        None \<Rightarrow> st
      | Some k \<Rightarrow> if k \<noteq> [] then st\<lparr>DEEPSEEK_API_KEY := k\<rparr> else st)"

definition ask_question ::
  "env \<Rightarrow> Question \<Rightarrow> state \<Rightarrow> ((exn + string) \<times> state) option" where
  "ask_question ev question_data st =
     (let api_key = getattr_Question question_data ''api_key'' None in
      case documents st (document_id question_data) of
        None \<Rightarrow> Some (Inl (HTTPException 404 ''Documento no encontrado'' None), st)
      | Some doc \<Rightarrow>
          (case document_embeddings st (document_id question_data) of
             None \<Rightarrow> Some (Inl (ask_failure KeyError), st)
           | Some chunk_embeddings \<Rightarrow>
               (case find_relevant_chunks (encode ev) (np_argsort ev) (doc_chunks doc)
                       chunk_embeddings (question question_data) 3 of
                  Inl e \<Rightarrow> Some (Inl (ask_failure e), st)
                | Inr (relevant_chunks, relevance_scores) \<Rightarrow>
                    let original_api_key = DEEPSEEK_API_KEY st in
                    (case query_deepseek ev (question question_data) relevant_chunks
                            (override_key api_key st) of
                       None \<Rightarrow> None
                     | Some (answer, st') \<Rightarrow>
                         Some (Inr answer, st'\<lparr>DEEPSEEK_API_KEY := original_api_key\<rparr>)))))"

definition post_ask_question ::
  "env \<Rightarrow> (string \<times> string) list \<Rightarrow> state \<Rightarrow> ((exn + string) \<times> state) option" where
  "post_ask_question ev body st =
     (case parse_Question body of
        None \<Rightarrow> Some (Inl (HTTPException 422 ''Unprocessable Entity'' None), st)
      | Some question_data \<Rightarrow> ask_question ev question_data st)"

definition save_settings :: "(string \<times> string) list \<Rightarrow> state \<Rightarrow> state" where
  "save_settings settings st =
     (case map_of settings ''deepseek_api_key'' of
        None \<Rightarrow> st
      | Some k \<Rightarrow> if k \<noteq> [] then st\<lparr>DEEPSEEK_API_KEY := k\<rparr> else st)"

subsection \<open>Sequences of requests\<close>

datatype request =
    Upload string string
  | Ask "(string \<times> string) list"
  | Settings "(string \<times> string) list"

fun handle :: "env \<Rightarrow> request \<Rightarrow> state \<Rightarrow> state option" where
  "handle ev (Upload new_id name) st = Some (snd (upload_document ev new_id name st))"
| "handle ev (Ask body) st = map_option snd (post_ask_question ev body st)"
| "handle ev (Settings settings) st = Some (save_settings settings st)"

fun run :: "env \<Rightarrow> request list \<Rightarrow> state \<Rightarrow> state option" where
  "run ev [] st = Some st"
| "run ev (r # rs) st = (case handle ev r st of None \<Rightarrow> None | Some st' \<Rightarrow> run ev rs st')"

definition initial_state :: "string \<Rightarrow> state" where
  "initial_state configured_key =
     \<lparr>documents = Map.empty, document_embeddings = Map.empty,
      DEEPSEEK_API_KEY = configured_key, sent = []\<rparr>"

text \<open>Chunks and vectors are aligned: every stored document has as many vectors as chunks.\<close>

definition aligned :: "state \<Rightarrow> bool" where
  "aligned st \<longleftrightarrow>
     (\<forall>i d. documents st i = Some d \<longrightarrow>
        (\<exists>vs. document_embeddings st i = Some vs \<and> length vs = length (doc_chunks d)))"

text \<open>The contract of the embedder: one vector for each text of the batch.\<close>

definition encode_ok :: "(string list \<Rightarrow> exn + real list list) \<Rightarrow> bool" where
  "encode_ok enc \<longleftrightarrow> (\<forall>texts vs. enc texts = Inr vs \<longrightarrow> length vs = length texts)"

text \<open>The identifiers under which a sequence of requests uploads.\<close>

fun uploaded_ids :: "request list \<Rightarrow> string set" where
  "uploaded_ids [] = {}"
| "uploaded_ids (Upload new_id name # rs) = insert new_id (uploaded_ids rs)"
| "uploaded_ids (r # rs) = uploaded_ids rs"

subsection \<open>Collaborators for the concrete cases\<close>

text \<open>
  An embedder that gives every text the same vector, a file system that takes every
  write and removal, an extractor that reads the same text from every file, and a backend
  with one fixed behaviour.
\<close>

definition unit_encode :: "string list \<Rightarrow> exn + real list list" where
  "unit_encode texts = Inr (map (\<lambda>t. [1, 0]) texts)"

definition test_env :: "string \<Rightarrow> transport \<Rightarrow> env" where
  "test_env file_text behaviour =
     \<lparr>encode = unit_encode, np_argsort = stable_argsort,
      save_upload = (\<lambda>p. None), remove_file = (\<lambda>p. None),
      extract_text = (\<lambda>p. Inr file_text),
      network = (\<lambda>r. behaviour),
      response_content = (\<lambda>body. Inr body)\<rparr>"

text \<open>
  A state in which one document is stored, as the upload of a file that reads
  \<open>Hello world\<close> leaves it, with the default credential \<open>B\<close>; and a request body that
  brings a credential of its own.
\<close>

definition example_state :: state where
  "example_state =
     \<lparr>documents = [''d'' \<mapsto>
        \<lparr>doc_filename = ''f.txt'', doc_path = ''uploads/d_f.txt'',
         doc_text = ''Hello world'', doc_chunks = [''Hello world'']\<rparr>],
      document_embeddings = [''d'' \<mapsto> [[1, 0]]],
      DEEPSEEK_API_KEY = ''B'', sent = []\<rparr>"

definition example_body :: "(string \<times> string) list" where
  "example_body = [(''question'', ''q''), (''document_id'', ''d''), (''api_key'', ''A'')]"

text \<open>
  Collaborators whose extractor rejects every file, and collaborators with a file system
  that takes no write.
\<close>

definition failing_env :: env where
  "failing_env =
     \<lparr>encode = unit_encode, np_argsort = stable_argsort,
      save_upload = (\<lambda>p. None), remove_file = (\<lambda>p. None),
      extract_text = (\<lambda>p. Inl (LibraryError ''unsupported'')),
      network = (\<lambda>r. Silent),
      response_content = (\<lambda>body. Inr body)\<rparr>"

definition unwritable_env :: env where
  "unwritable_env =
     \<lparr>encode = unit_encode, np_argsort = stable_argsort,
      save_upload = (\<lambda>p. Some (LibraryError ''No such file or directory'')),
      remove_file = (\<lambda>p. None),
      extract_text = (\<lambda>p. Inr ''Hello world''),
      network = (\<lambda>r. Silent),
      response_content = (\<lambda>body. Inr body)\<rparr>"

section \<open>Properties of the chunker\<close>

lemma strip_length_le: "length (strip s) \<le> length s"
proof -
  have "length (strip s) = length (dropWhile isspace (rev (dropWhile isspace s)))"
    by (simp add: strip_def)
  also have "\<dots> \<le> length (rev (dropWhile isspace s))"
    by (rule length_dropWhile_le)
  also have "\<dots> \<le> length s"
    by (simp add: length_dropWhile_le)
  finally show ?thesis .
qed

lemma strip_Nil: "strip [] = []"
  by (simp add: strip_def)

lemma chunk_loop_accumulate:
  "(case chunk_loop ps (chunks, cur) of (cs, c) \<Rightarrow> cs @ close_buffer c) =
     chunks @ accumulate over_sum cur (filter (\<lambda>s. 5 \<le> length (strip s)) ps)"
proof (induction ps arbitrary: chunks cur)
  case Nil
  show ?case by simp
next
  case (Cons p ps)
  show ?case
  proof (cases "length (strip p) < 5")
    case True
    then show ?thesis using Cons.IH [of chunks cur] by simp
  next
    case False
    note keep = this
    show ?thesis
    proof (cases "length cur + length p > 500")
      case True
      then show ?thesis
        using keep Cons.IH [of "chunks @ close_buffer cur" p]
        by (cases "cur = []") (simp_all add: over_sum_def [abs_def] close_buffer_def)
    next
      case False
      then show ?thesis
        using keep Cons.IH [of chunks "append_segment cur p"]
        by (cases "cur = []") (simp_all add: over_sum_def [abs_def] append_segment_def)
    qed
  qed
qed

lemma make_chunks_accumulate: "make_chunks text = accumulate over_sum [] (segments text)"
  using chunk_loop_accumulate [of "split_nl text" "[]" "[]"]
  by (cases "chunk_loop (split_nl text) ([], [])")
     (auto simp: make_chunks_def segments_def close_buffer_def split: if_splits)

lemma make_chunks_scenario:
  "make_chunks scenario_text = [''Title Paragraph one text here. Paragraph two text here.'']"
  by code_simp

lemma make_chunks_boundary:
  "make_chunks boundary_text = [replicate 250 CHR ''a'' @ '' '' @ replicate 250 CHR ''b'']"
  by code_simp

lemma chunk_spec_boundary:
  "chunk_spec boundary_text = [replicate 250 CHR ''a'', replicate 250 CHR ''b'']"
  by code_simp

lemma chunk_groups_boundary:
  "chunk_groups boundary_text = [[replicate 250 CHR ''a'', replicate 250 CHR ''b'']]"
  by code_simp

lemma str_join_snoc:
  "str_join sep (g @ [p]) = (if g = [] then p else str_join sep g @ sep @ p)"
  by (induction sep g rule: str_join.induct) auto

lemma join_segments_snoc:
  "join_segments (g @ [p]) = (if g = [] then p else join_segments g @ '' '' @ p)"
  by (simp add: join_segments_def str_join_snoc)

lemma str_join_Nil_iff: "[] \<notin> set g \<Longrightarrow> str_join sep g = [] \<longleftrightarrow> g = []"
  by (induction sep g rule: str_join.induct) auto

lemma join_segments_Nil_iff: "[] \<notin> set g \<Longrightarrow> join_segments g = [] \<longleftrightarrow> g = []"
  by (simp add: join_segments_def str_join_Nil_iff)

lemma join_segments_single: "join_segments [p] = p"
  by (simp add: join_segments_def)

lemma group_loop_chunk_loop:
  "[] \<notin> set current \<Longrightarrow>
   chunk_loop ps (map (\<lambda>g. strip (join_segments g)) groups, join_segments current) =
     (case group_loop ps (groups, current) of
        (gs, g) \<Rightarrow> (map (\<lambda>g. strip (join_segments g)) gs, join_segments g))"
proof (induction ps arbitrary: groups current)
  case Nil
  show ?case by simp
next
  case (Cons p ps)
  show ?case
  proof (cases "length (strip p) < 5")
    case True
    then show ?thesis using Cons.IH [OF Cons.prems] by simp
  next
    case False
    then have pne: "p \<noteq> []" by (auto simp: strip_Nil)
    note keep = False
    show ?thesis
    proof (cases "length (join_segments current) + length p > 500")
      case True
      have "[] \<notin> set [p]" using pne by simp
      from Cons.IH [OF this, of "if current \<noteq> [] then groups @ [current] else groups"]
      show ?thesis using True keep join_segments_Nil_iff [OF Cons.prems]
        by (cases "current = []") (simp_all add: join_segments_single)
    next
      case False
      have "[] \<notin> set (current @ [p])" using pne Cons.prems by simp
      from Cons.IH [OF this, of groups]
      show ?thesis using False keep join_segments_Nil_iff [OF Cons.prems]
        by (cases "current = []") (simp_all add: join_segments_snoc join_segments_single)
    qed
  qed
qed

lemma group_loop_inv:
  "group_inv groups current \<Longrightarrow> group_loop ps (groups, current) = (gs, g) \<Longrightarrow> group_inv gs g"
proof (induction ps arbitrary: groups current)
  case Nil
  then show ?case by simp
next
  case (Cons p ps)
  show ?case
  proof (cases "length (strip p) < 5")
    case True
    then show ?thesis using Cons by simp
  next
    case False
    then have pne: "p \<noteq> []" by (auto simp: strip_Nil)
    note keep = False
    show ?thesis
    proof (cases "length (join_segments current) + length p > 500")
      case True
      have "group_inv (if current \<noteq> [] then groups @ [current] else groups) [p]"
        using Cons.prems(1) pne by (auto simp: group_inv_def)
      then show ?thesis using Cons.IH Cons.prems(2) True keep by simp
    next
      case False
      have "group_inv groups (current @ [p])"
        using Cons.prems(1) pne False by (auto simp: group_inv_def join_segments_snoc)
      then show ?thesis using Cons.IH Cons.prems(2) False keep by simp
    qed
  qed
qed

lemma group_inv_start: "group_inv [] []"
  by (simp add: group_inv_def)

lemma make_chunks_groups:
  "make_chunks text = map (\<lambda>g. strip (join_segments g)) (chunk_groups text)"
proof -
  obtain gs g where gl: "group_loop (split_nl text) ([], []) = (gs, g)"
    by (cases "group_loop (split_nl text) ([], [])") auto
  have ne: "[] \<notin> set g"
    using group_loop_inv [OF group_inv_start gl] by (simp add: group_inv_def)
  have "join_segments [] = []"
    by (simp add: join_segments_def)
  then have "chunk_loop (split_nl text) ([], []) =
          (map (\<lambda>g. strip (join_segments g)) gs, join_segments g)"
    using group_loop_chunk_loop [of "[]" "split_nl text" "[]"] gl by simp
  then show ?thesis
    using gl join_segments_Nil_iff [OF ne]
    by (cases "g = []") (simp_all add: make_chunks_def chunk_groups_def)
qed

lemma chunk_groups_bound:
  assumes "g \<in> set (chunk_groups text)" and "2 \<le> length g"
  shows "length (strip (join_segments g)) \<le> 501"
proof -
  obtain gs c where gl: "group_loop (split_nl text) ([], []) = (gs, c)"
    by (cases "group_loop (split_nl text) ([], [])") auto
  from group_loop_inv [OF group_inv_start gl] have inv: "group_inv gs c" .
  have "g \<in> set gs \<or> g = c"
    using assms(1) gl by (auto simp: chunk_groups_def split: if_splits)
  then have "length (join_segments g) \<le> 501"
    using inv assms(2) by (auto simp: group_inv_def)
  then show ?thesis using strip_length_le [of "join_segments g"] by linarith
qed

text \<open>
  C6, as the code has it. The chunker is the accumulation algorithm: the text is split on
  line feeds, the lines whose stripped length is below 5 are discarded, and the rest are
  accumulated into a buffer, which is closed (stripped) as a chunk when it is not empty
  and its length plus the length of the next segment exceeds 500, the separating space
  not being counted; the segment then starts the next buffer, and the last buffer is
  flushed when it is not empty. The text of the scenario gives the one chunk
  \<open>Title Paragraph one text here. Paragraph two text here.\<close>
\<close>

theorem chunker_is_accumulation:
  "make_chunks text = chunk_reference text \<and>
   make_chunks scenario_text = [''Title Paragraph one text here. Paragraph two text here.'']"
proof
  show "make_chunks text = chunk_reference text"
    by (simp add: make_chunks_accumulate chunk_reference_def)
  show "make_chunks scenario_text = [''Title Paragraph one text here. Paragraph two text here.'']"
    by (rule make_chunks_scenario)
qed

text \<open>
  C6 as it is stated fails: with two lines of 250 characters, appending the second would
  make the buffer 501 long, so the algorithm of the specification closes the buffer and
  gives two chunks, while the code gives one chunk of 501 characters.
\<close>

theorem chunker_differs_from_spec_at_boundary:
  "make_chunks boundary_text \<noteq> chunk_spec boundary_text"
  by (simp add: make_chunks_boundary chunk_spec_boundary)

text \<open>
  C10. Each chunk is the stripped join of a group of segments; a chunk whose group has two
  or more segments is at most 501 characters long; and 501 is reached: the two lines of
  250 characters of \<open>boundary_text\<close> make one chunk of 501 characters.
\<close>

theorem chunk_of_several_segments_at_most_501:
  "make_chunks text = map (\<lambda>g. strip (join_segments g)) (chunk_groups text) \<and>
   (\<forall>g \<in> set (chunk_groups text). 2 \<le> length g \<longrightarrow> length (strip (join_segments g)) \<le> 501) \<and>
   chunk_groups boundary_text = [[replicate 250 CHR ''a'', replicate 250 CHR ''b'']] \<and>
   make_chunks boundary_text = [replicate 250 CHR ''a'' @ '' '' @ replicate 250 CHR ''b''] \<and>
   length (replicate 250 CHR ''a'' @ '' '' @ replicate 250 CHR ''b'') = 501"
  using make_chunks_groups [of "text"] chunk_groups_bound [of _ "text"]
    chunk_groups_boundary make_chunks_boundary
  by auto

theorem chunk_of_several_segments_at_most_501_witness:
  "[replicate 250 CHR ''a'', replicate 250 CHR ''b''] \<in> set (chunk_groups boundary_text) \<and>
   2 \<le> length [replicate 250 CHR ''a'', replicate 250 CHR ''b''] \<and>
   length (strip (join_segments [replicate 250 CHR ''a'', replicate 250 CHR ''b''])) \<le> 501"
proof -
  have m: "[replicate 250 CHR ''a'', replicate 250 CHR ''b''] \<in> set (chunk_groups boundary_text)"
    by (simp add: chunk_groups_boundary)
  have l: "2 \<le> length [replicate 250 CHR ''a'', replicate 250 CHR ''b'']"
    by simp
  from chunk_of_several_segments_at_most_501 [of boundary_text] m l
  show ?thesis by blast
qed

section \<open>Properties of the retriever\<close>

lemma squares_nonneg: "0 \<le> sum_list (map (\<lambda>x. x * x) v)" for v :: "real list"
  by (induction v) simp_all

lemma squares_zero: "sum_list (map (\<lambda>x. x * x) v) = 0 \<Longrightarrow> \<forall>x \<in> set v. x = (0::real)"
proof (induction v)
  case Nil
  show ?case by simp
next
  case (Cons a v)
  have "a * a + sum_list (map (\<lambda>x. x * x) v) = 0"
    using Cons.prems by simp
  then have "a * a = 0 \<and> sum_list (map (\<lambda>x. x * x) v) = 0"
    using add_nonneg_eq_0_iff [OF zero_le_square [of a] squares_nonneg [of v]] by simp
  then show ?case using Cons.IH by simp
qed

lemma dot_zeros: "\<forall>x \<in> set v. x = (0::real) \<Longrightarrow> sum_list (map2 (*) v w) = 0"
proof (induction v arbitrary: w)
  case Nil
  show ?case by simp
next
  case (Cons x v)
  then show ?case by (cases w) auto
qed

lemma dot_zero_norm: "norm2 v = 0 \<Longrightarrow> dot v w = 0"
  using dot_zeros [OF squares_zero, of v w] by (simp add: norm2_def dot_def)




lemma reversing_argsort_ok: "argsort_ok reversing_argsort"
  by (simp add: argsort_ok_def reversing_argsort_def)



lemma slice_zero: "slice_from (- 0) xs = xs"
  by (simp add: slice_from_def)










lemma sqrt_25: "sqrt 25 = 5"
  using real_sqrt_abs [of 5] by simp

lemma norm2_4_3: "norm2 [4, 3] = 5"
  by (simp add: norm2_def sqrt_25)

lemma norm2_units:
  "norm2 [1, 0] = 1" "norm2 [0, 1] = 1" "norm2 [- 1, 0] = 1" "norm2 [0, 0] = 0"
  by (simp_all add: norm2_def)

lemma cosine_cases:
  "cosine [1, 0] [1, 0] = Num 1" "cosine [0, 1] [1, 0] = Num 0"
  "cosine [- 1, 0] [1, 0] = Num (- 1)" "cosine [4, 3] [1, 0] = Num (4 / 5)"
  "cosine [0, 0] [1, 0] = NaN"
  by (simp_all add: cosine_def norm2_units norm2_4_3 dot_def)

text \<open>
  Two chunks of five have the same similarity 0.8. Which of them comes first depends on
  the order in which \<open>argsort\<close> lists equal values, and \<open>argsort_ok\<close> allows both.
\<close>

lemma tie_order_follows_argsort:
  "find_relevant_chunks unit_encode stable_argsort [''c0'', ''c1'', ''c2'', ''c3'', ''c4'']
        [[0, 1], [0, 1], [4, 3], [- 1, 0], [4, 3]] ''q'' 3 =
      Inr ([''c4'', ''c2'', ''c1''], [Num (4 / 5), Num (4 / 5), Num 0]) \<and>
   find_relevant_chunks unit_encode reversing_argsort [''c0'', ''c1'', ''c2'', ''c3'', ''c4'']
        [[0, 1], [0, 1], [4, 3], [- 1, 0], [4, 3]] ''q'' 3 =
      Inr ([''c2'', ''c4'', ''c0''], [Num (4 / 5), Num (4 / 5), Num 0])"
  by (simp add: find_relevant_chunks_def unit_encode_def cosine_similarities_def cosine_cases
      top_indices_def slice_from_def stable_argsort_def reversing_argsort_def upt_rec)










section \<open>Properties of the synthesizer\<close>

lemma str_nat_500: "str_nat 500 = ''500''"
  by code_simp

lemma backend_error_500:
  "backend_error_message 500 ''server error'' = ''Error al consultar la API: 500 - server error''"
  by (simp add: backend_error_message_def str_nat_500)

lemma query_deepseek_missing_key:
  "DEEPSEEK_API_KEY st = [] \<Longrightarrow> query_deepseek ev q cs st = Some (missing_key_message, st)"
  by (simp add: query_deepseek_def)

lemma query_deepseek_replies:
  assumes "DEEPSEEK_API_KEY st \<noteq> []"
    and "network ev (build_request (DEEPSEEK_API_KEY st) q cs) = Replies status body"
  shows "query_deepseek ev q cs st =
     (if status = 200 then
        (case response_content ev body of
           Inl e \<Rightarrow> Some (exception_message e,
                      st\<lparr>sent := sent st @ [build_request (DEEPSEEK_API_KEY st) q cs]\<rparr>)
         | Inr answer \<Rightarrow> Some (answer,
                      st\<lparr>sent := sent st @ [build_request (DEEPSEEK_API_KEY st) q cs]\<rparr>))
      else Some (backend_error_message status body,
                 st\<lparr>sent := sent st @ [build_request (DEEPSEEK_API_KEY st) q cs]\<rparr>))"
  using assms by (simp add: query_deepseek_def requests_post_def Let_def)

lemma query_deepseek_breaks:
  assumes "DEEPSEEK_API_KEY st \<noteq> []"
    and "network ev (build_request (DEEPSEEK_API_KEY st) q cs) = Breaks m"
  shows "query_deepseek ev q cs st =
     Some (exception_message m, st\<lparr>sent := sent st @ [build_request (DEEPSEEK_API_KEY st) q cs]\<rparr>)"
  using assms by (simp add: query_deepseek_def requests_post_def Let_def)

lemma build_request_timeout: "timeout (build_request k q cs) = None"
  by (simp add: build_request_def)

lemma query_deepseek_silent:
  assumes "DEEPSEEK_API_KEY st \<noteq> []"
    and "network ev (build_request (DEEPSEEK_API_KEY st) q cs) = Silent"
  shows "query_deepseek ev q cs st = None"
  using assms by (simp add: query_deepseek_def requests_post_def Let_def build_request_timeout)

lemma query_deepseek_frame:
  "query_deepseek ev q cs st = Some (a, st') \<Longrightarrow>
   documents st' = documents st \<and> document_embeddings st' = document_embeddings st \<and>
   DEEPSEEK_API_KEY st' = DEEPSEEK_API_KEY st"
  by (auto simp: query_deepseek_def Let_def split: if_splits option.splits sum.splits prod.splits)

lemma override_key_frame:
  "documents (override_key k st) = documents st \<and>
   document_embeddings (override_key k st) = document_embeddings st \<and>
   sent (override_key k st) = sent st"
  by (simp add: override_key_def split: option.splits)

lemma getattr_api_key: "getattr_Question obj ''api_key'' None = None"
  by (simp add: getattr_Question_def)

lemma ask_question_frame:
  "ask_question ev qd st = Some (r, st') \<Longrightarrow>
   documents st' = documents st \<and> document_embeddings st' = document_embeddings st \<and>
   DEEPSEEK_API_KEY st' = DEEPSEEK_API_KEY st"
  by (auto simp: ask_question_def Let_def override_key_frame
      split: option.splits sum.splits prod.splits dest!: query_deepseek_frame)

lemma post_ask_question_frame:
  "post_ask_question ev body st = Some (r, st') \<Longrightarrow>
   documents st' = documents st \<and> document_embeddings st' = document_embeddings st \<and>
   DEEPSEEK_API_KEY st' = DEEPSEEK_API_KEY st"
  by (auto simp: post_ask_question_def split: option.splits dest: ask_question_frame)

lemma ask_question_missing_key:
  "DEEPSEEK_API_KEY st = [] \<Longrightarrow> \<exists>r. ask_question ev qd st = Some (r, st)"
  by (auto simp: ask_question_def Let_def getattr_api_key override_key_def
      query_deepseek_missing_key split: option.splits sum.splits prod.splits)

text \<open>
  C5. Without a credential (no default, and none in the request) the synthesizer returns
  the missing-credential message at once and posts nothing: the state, and with it the
  list of the requests sent, is the one it started from. The same holds of the whole
  question endpoint.
\<close>

theorem no_credential_no_call:
  assumes "DEEPSEEK_API_KEY st = []"
  shows "query_deepseek ev q cs st = Some (missing_key_message, st) \<and>
         (map_of body ''api_key'' = None \<longrightarrow> (\<exists>r. post_ask_question ev body st = Some (r, st)))"
proof -
  have "\<exists>r. post_ask_question ev body st = Some (r, st)"
    using ask_question_missing_key [OF assms]
    by (cases "parse_Question body") (simp_all add: post_ask_question_def)
  then show ?thesis using query_deepseek_missing_key [OF assms] by simp
qed

theorem no_credential_no_call_witness:
  "DEEPSEEK_API_KEY (initial_state []) = [] \<and>
   map_of [(''question'', ''q''), (''document_id'', ''d'')] ''api_key'' = None \<and>
   query_deepseek (test_env ''Hello world'' (Replies 200 ''the answer'')) ''q'' [''Hello world'']
     (initial_state []) = Some (''Error: API key de Deepseek no configurada.'', initial_state []) \<and>
   (\<exists>r. post_ask_question (test_env ''Hello world'' (Replies 200 ''the answer''))
      [(''question'', ''q''), (''document_id'', ''d'')] (initial_state []) =
        Some (r, initial_state [])) \<and>
   sent (initial_state []) = []"
proof -
  have h: "DEEPSEEK_API_KEY (initial_state []) = []"
    by (simp add: initial_state_def)
  have b: "map_of [(''question'', ''q''), (''document_id'', ''d'')] ''api_key'' = None"
    by simp
  have s: "sent (initial_state []) = []"
    by (simp add: initial_state_def)
  from no_credential_no_call [OF h, of "test_env ''Hello world'' (Replies 200 ''the answer'')"
      "''q''" "[''Hello world'']" "[(''question'', ''q''), (''document_id'', ''d'')]"] b
  have "query_deepseek (test_env ''Hello world'' (Replies 200 ''the answer'')) ''q'' [''Hello world'']
     (initial_state []) = Some (missing_key_message, initial_state []) \<and>
   (\<exists>r. post_ask_question (test_env ''Hello world'' (Replies 200 ''the answer''))
      [(''question'', ''q''), (''document_id'', ''d'')] (initial_state []) =
        Some (r, initial_state []))"
    by blast
  then show ?thesis using h b s by (simp add: missing_key_message_def)
qed

text \<open>
  C8. When the backend answers with a status other than 200, the synthesizer returns (it
  does not raise) the backend-error message, which carries the status code and the body
  as received; status 500 with the body \<open>server error\<close> gives
  \<open>Error al consultar la API: 500 - server error\<close>.
\<close>

theorem backend_error_carries_status_and_body:
  assumes "DEEPSEEK_API_KEY st \<noteq> []"
    and "network ev (build_request (DEEPSEEK_API_KEY st) q cs) = Replies status body"
    and "status \<noteq> 200"
  shows "(\<exists>st'. query_deepseek ev q cs st = Some (backend_error_message status body, st')) \<and>
         backend_error_message status body =
           ''Error al consultar la API: '' @ str_nat status @ '' - '' @ body \<and>
         backend_error_message 500 ''server error'' =
           ''Error al consultar la API: 500 - server error''"
proof -
  have "\<exists>st'. query_deepseek ev q cs st = Some (backend_error_message status body, st')"
    using query_deepseek_replies [OF assms(1,2)] assms(3) by simp
  moreover have "backend_error_message status body =
      ''Error al consultar la API: '' @ str_nat status @ '' - '' @ body"
    by (simp only: backend_error_message_def)
  ultimately show ?thesis using backend_error_500 by blast
qed

theorem backend_error_carries_status_and_body_witness:
  "DEEPSEEK_API_KEY example_state \<noteq> [] \<and>
   network (test_env [] (Replies 500 ''server error''))
     (build_request (DEEPSEEK_API_KEY example_state) ''q'' [''Hello world'']) =
       Replies 500 ''server error'' \<and>
   (500::nat) \<noteq> 200 \<and>
   (\<exists>st'. query_deepseek (test_env [] (Replies 500 ''server error'')) ''q'' [''Hello world'']
       example_state = Some (''Error al consultar la API: 500 - server error'', st'))"
proof -
  have h: "DEEPSEEK_API_KEY example_state \<noteq> []"
    "network (test_env [] (Replies 500 ''server error''))
       (build_request (DEEPSEEK_API_KEY example_state) ''q'' [''Hello world'']) =
         Replies 500 ''server error''"
    "(500::nat) \<noteq> 200"
    by (simp_all add: example_state_def test_env_def)
  from backend_error_carries_status_and_body [OF h]
  have "\<exists>st'. query_deepseek (test_env [] (Replies 500 ''server error'')) ''q'' [''Hello world'']
       example_state = Some (backend_error_message 500 ''server error'', st')"
    by blast
  then have "\<exists>st'. query_deepseek (test_env [] (Replies 500 ''server error'')) ''q'' [''Hello world'']
       example_state = Some (''Error al consultar la API: 500 - server error'', st')"
    by (simp only: backend_error_500)
  then show ?thesis using h by blast
qed

text \<open>
  C9, as the code has it. The request to the language model is posted without a timeout.
  When the transport raises, whatever the cause, the synthesizer returns the message
  \<open>Error al procesar la pregunta:\<close> followed by the cause; when the backend never
  answers, the call does not return.
\<close>

theorem llm_call_has_no_timeout:
  assumes "DEEPSEEK_API_KEY st \<noteq> []"
  shows "timeout (build_request (DEEPSEEK_API_KEY st) q cs) = None \<and>
         (\<forall>m. network ev (build_request (DEEPSEEK_API_KEY st) q cs) = Breaks m \<longrightarrow>
            (\<exists>st'. query_deepseek ev q cs st = Some (''Error al procesar la pregunta: '' @ m, st'))) \<and>
         (network ev (build_request (DEEPSEEK_API_KEY st) q cs) = Silent \<longrightarrow>
            query_deepseek ev q cs st = None)"
  using query_deepseek_breaks [OF assms] query_deepseek_silent [OF assms]
  by (simp add: build_request_timeout exception_message_def)

theorem llm_call_has_no_timeout_witness:
  "DEEPSEEK_API_KEY example_state \<noteq> [] \<and>
   network (test_env [] (Breaks ''Connection refused''))
     (build_request (DEEPSEEK_API_KEY example_state) ''q'' []) = Breaks ''Connection refused'' \<and>
   (\<exists>st'. query_deepseek (test_env [] (Breaks ''Connection refused'')) ''q'' [] example_state =
      Some (''Error al procesar la pregunta: Connection refused'', st')) \<and>
   network (test_env [] Silent) (build_request (DEEPSEEK_API_KEY example_state) ''q'' []) = Silent \<and>
   query_deepseek (test_env [] Silent) ''q'' [] example_state = None"
proof -
  have h: "DEEPSEEK_API_KEY example_state \<noteq> []"
    by (simp add: example_state_def)
  have n: "network (test_env [] (Breaks ''Connection refused''))
     (build_request (DEEPSEEK_API_KEY example_state) ''q'' []) = Breaks ''Connection refused''"
    by (simp add: test_env_def)
  have n': "network (test_env [] Silent)
     (build_request (DEEPSEEK_API_KEY example_state) ''q'' []) = Silent"
    by (simp add: test_env_def)
  from llm_call_has_no_timeout [OF h, of "''q''" "[]" "test_env [] (Breaks ''Connection refused'')"] n
  have 1: "\<exists>st'. query_deepseek (test_env [] (Breaks ''Connection refused'')) ''q'' [] example_state =
      Some (''Error al procesar la pregunta: Connection refused'', st')"
    by simp
  from llm_call_has_no_timeout [OF h, of "''q''" "[]" "test_env [] Silent"] n'
  have 2: "query_deepseek (test_env [] Silent) ''q'' [] example_state = None"
    by blast
  show ?thesis using h n n' 1 2 by blast
qed

text \<open>
  C9 as it is stated fails: the request that is posted carries no timeout, and with a
  backend that never answers the synthesizer does not return.
\<close>

theorem llm_call_blocks_on_silent_backend:
  "timeout (build_request ''B'' ''q'' [''Hello world'']) = None \<and>
   query_deepseek (test_env [] Silent) ''q'' [''Hello world''] example_state = None"
  by (simp add: build_request_timeout query_deepseek_def requests_post_def Let_def
      example_state_def test_env_def)

section \<open>Properties of the endpoints\<close>

lemma make_chunks_empty: "make_chunks [] = []"
  by (simp add: make_chunks_def strip_def)

lemma make_chunks_hello: "make_chunks ''Hello world'' = [''Hello world'']"
  by code_simp

lemma cosine_unit: "cosine [1, 0] [1, 0] = Num 1"
  by (simp add: cosine_def norm2_def dot_def)

lemma upload_document_fails:
  "upload_document ev i name st = (Inl e, st') \<Longrightarrow> st' = st"
  by (auto simp: upload_document_def Let_def split: option.splits sum.splits prod.splits)

lemma upload_document_stores:
  assumes "upload_document ev i name st = (Inr r, st')"
  shows "\<exists>tx vs. save_upload ev (''uploads/'' @ i @ ''_'' @ name) = None \<and>
           extract_text ev (''uploads/'' @ i @ ''_'' @ name) = Inr tx \<and>
           encode ev (make_chunks tx) = Inr vs \<and>
           documents st' = (documents st)(i \<mapsto>
             \<lparr>doc_filename = name, doc_path = ''uploads/'' @ i @ ''_'' @ name,
              doc_text = tx, doc_chunks = make_chunks tx\<rparr>) \<and>
           document_embeddings st' = (document_embeddings st)(i \<mapsto> vs) \<and>
           DEEPSEEK_API_KEY st' = DEEPSEEK_API_KEY st \<and> sent st' = sent st"
  using assms
  by (auto simp: upload_document_def process_document_def Let_def
      split: option.splits sum.splits prod.splits)

lemma upload_document_succeeds:
  assumes "save_upload ev (''uploads/'' @ i @ ''_'' @ name) = None"
    and "extract_text ev (''uploads/'' @ i @ ''_'' @ name) = Inr tx"
    and "encode ev (make_chunks tx) = Inr vs"
  shows "upload_document ev i name st =
     (Inr [(''document_id'', i), (''message'', ''Documento subido correctamente'')],
      st\<lparr>documents := (documents st)(i \<mapsto>
             \<lparr>doc_filename = name, doc_path = ''uploads/'' @ i @ ''_'' @ name,
              doc_text = tx, doc_chunks = make_chunks tx\<rparr>),
         document_embeddings := (document_embeddings st)(i \<mapsto> vs)\<rparr>)"
  using assms by (simp add: upload_document_def process_document_def Let_def)

lemma upload_document_other:
  "j \<noteq> i \<Longrightarrow>
   documents (snd (upload_document ev i name st)) j = documents st j \<and>
   document_embeddings (snd (upload_document ev i name st)) j = document_embeddings st j"
  by (auto simp: upload_document_def process_document_def Let_def
      split: option.splits sum.splits prod.splits)

lemma upload_document_aligned:
  assumes "encode_ok (encode ev)" and "aligned st"
  shows "aligned (snd (upload_document ev i name st))"
proof (cases "upload_document ev i name st")
  case (Pair res st')
  show ?thesis
  proof (cases res)
    case (Inl e)
    then show ?thesis using Pair upload_document_fails [of ev i name st e st'] assms(2) by simp
  next
    case (Inr r)
    from upload_document_stores [OF Pair [unfolded Inr]]
    obtain tx vs where s: "encode ev (make_chunks tx) = Inr vs"
      "documents st' = (documents st)(i \<mapsto>
             \<lparr>doc_filename = name, doc_path = ''uploads/'' @ i @ ''_'' @ name,
              doc_text = tx, doc_chunks = make_chunks tx\<rparr>)"
      "document_embeddings st' = (document_embeddings st)(i \<mapsto> vs)"
      by blast
    have "length vs = length (make_chunks tx)"
      using assms(1) s(1) by (simp add: encode_ok_def)
    then have "aligned st'"
      using assms(2) s(2,3) by (auto simp: aligned_def)
    then show ?thesis using Pair by simp
  qed
qed

lemma save_settings_frame:
  "documents (save_settings settings st) = documents st \<and>
   document_embeddings (save_settings settings st) = document_embeddings st"
  by (simp add: save_settings_def split: option.splits)

lemma aligned_cong:
  "documents st' = documents st \<Longrightarrow> document_embeddings st' = document_embeddings st \<Longrightarrow>
   aligned st \<Longrightarrow> aligned st'"
  by (simp add: aligned_def)

lemma handle_aligned:
  assumes "encode_ok (encode ev)" and "aligned st" and "handle ev r st = Some st'"
  shows "aligned st'"
proof (cases r)
  case (Upload i name)
  then show ?thesis using assms upload_document_aligned [of ev st i name] by auto
next
  case (Ask body)
  then obtain res where "post_ask_question ev body st = Some (res, st')"
    using assms(3) by auto
  from post_ask_question_frame [OF this] show ?thesis
    using assms(2) aligned_cong by blast
next
  case (Settings settings)
  then show ?thesis
    using assms(2,3) save_settings_frame [of settings st] aligned_cong by auto
qed

lemma run_aligned:
  "encode_ok (encode ev) \<Longrightarrow> aligned st \<Longrightarrow> run ev rs st = Some st' \<Longrightarrow> aligned st'"
proof (induction rs arbitrary: st)
  case Nil
  then show ?case by simp
next
  case (Cons r rs)
  then show ?case
    by (cases "handle ev r st") (auto dest: handle_aligned)
qed

lemma aligned_initial: "aligned (initial_state k)"
  by (simp add: aligned_def initial_state_def)

lemma handle_keeps_document:
  assumes "handle ev r st = Some st'" and "i \<notin> uploaded_ids [r]"
  shows "documents st' i = documents st i \<and> document_embeddings st' i = document_embeddings st i"
proof (cases r)
  case (Upload j name)
  then have "i \<noteq> j" using assms(2) by simp
  from upload_document_other [OF this, of ev name st] show ?thesis
    using Upload assms(1) by auto
next
  case (Ask body)
  then obtain res where "post_ask_question ev body st = Some (res, st')"
    using assms(1) by auto
  from post_ask_question_frame [OF this] show ?thesis by simp
next
  case (Settings settings)
  then show ?thesis using assms(1) save_settings_frame [of settings st] by auto
qed

lemma uploaded_ids_Cons: "i \<notin> uploaded_ids (r # rs) \<longleftrightarrow> i \<notin> uploaded_ids [r] \<and> i \<notin> uploaded_ids rs"
  by (cases r) simp_all

lemma run_keeps_document:
  "run ev rs st = Some st' \<Longrightarrow> i \<notin> uploaded_ids rs \<Longrightarrow>
   documents st' i = documents st i \<and> document_embeddings st' i = document_embeddings st i"
proof (induction rs arbitrary: st)
  case Nil
  then show ?case by simp
next
  case (Cons r rs)
  from Cons.prems(2) have i: "i \<notin> uploaded_ids [r]" "i \<notin> uploaded_ids rs"
    using uploaded_ids_Cons [of i r rs] by simp_all
  obtain st1 where h: "handle ev r st = Some st1" and r: "run ev rs st1 = Some st'"
    using Cons.prems(1) by (cases "handle ev r st") auto
  from handle_keeps_document [OF h i(1)] Cons.IH [OF r i(2)] show ?case by simp
qed

lemma unit_encode_ok: "encode_ok unit_encode"
  by (auto simp: encode_ok_def unit_encode_def)

lemma upload_hello:
  "upload_document (test_env ''Hello world'' b) ''d'' ''f.txt'' (initial_state ''B'') =
     (Inr [(''document_id'', ''d''), (''message'', ''Documento subido correctamente'')],
      example_state)"
  by (simp add: upload_document_def process_document_def Let_def test_env_def unit_encode_def
      make_chunks_hello initial_state_def example_state_def)

lemma upload_empty:
  "upload_document (test_env [] b) ''d'' ''f.txt'' (initial_state ''B'') =
     (Inr [(''document_id'', ''d''), (''message'', ''Documento subido correctamente'')],
      \<lparr>documents = [''d'' \<mapsto>
          \<lparr>doc_filename = ''f.txt'', doc_path = ''uploads/d_f.txt'', doc_text = [],
           doc_chunks = []\<rparr>],
       document_embeddings = [''d'' \<mapsto> []],
       DEEPSEEK_API_KEY = ''B'', sent = []\<rparr>)"
  by (simp add: upload_document_def process_document_def Let_def test_env_def unit_encode_def
      make_chunks_empty initial_state_def)

lemma find_hello:
  "find_relevant_chunks unit_encode stable_argsort [''Hello world''] [[1, 0]] ''q'' 3 =
     Inr ([''Hello world''], [Num 1])"
  by (simp add: find_relevant_chunks_def unit_encode_def cosine_similarities_def cosine_unit
      top_indices_def slice_from_def stable_argsort_def Let_def)

lemma parse_example_body:
  "parse_Question example_body = Some \<lparr>question = ''q'', document_id = ''d''\<rparr>"
  by (simp add: parse_Question_def example_body_def)

lemma ask_example:
  "post_ask_question (test_env ''Hello world'' (Replies 200 ''the answer'')) example_body
       example_state =
     Some (Inr ''the answer'',
           example_state\<lparr>sent := [build_request ''B'' ''q'' [''Hello world'']]\<rparr>)"
  by (simp add: post_ask_question_def parse_example_body ask_question_def getattr_api_key
      override_key_def Let_def example_state_def test_env_def find_hello
      query_deepseek_def requests_post_def)

lemma authorization_header:
  "map_of (headers (build_request k q cs)) ''Authorization'' = Some (''Bearer '' @ k)"
  by (simp add: build_request_def)

lemma upload_document_fails_iff:
  "(\<exists>e. fst (upload_document ev i name st) = Inl e) \<longleftrightarrow>
      (\<exists>e. save_upload ev (''uploads/'' @ i @ ''_'' @ name) = Some e) \<or>
      (\<exists>e. extract_text ev (''uploads/'' @ i @ ''_'' @ name) = Inl e) \<or>
      (\<exists>tx e. extract_text ev (''uploads/'' @ i @ ''_'' @ name) = Inr tx \<and>
               encode ev (make_chunks tx) = Inl e)"
  by (auto simp: upload_document_def process_document_def Let_def
      split: option.splits sum.splits prod.splits)

lemma upload_unwritable:
  "upload_document unwritable_env ''d'' ''sub/f.txt'' (initial_state ''B'') =
     (Inl (HTTPException 500 ''Error al subir el documento: ''
            (Some (LibraryError ''No such file or directory''))), initial_state ''B'')"
  by (simp add: upload_document_def unwritable_env_def outer_failure_def)

text \<open>
  C3, as the code has it. Ingestion fails exactly when the writing of the upload, the
  extraction or the embedder raises, and then the state is the one before: nothing is
  stored. When it succeeds, the document with its text and the chunks of that text, and
  the vectors that the embedder returned for those chunks, are stored under the new
  identifier. Zero chunks do not make it fail: if the embedder returns for the empty list,
  the document is stored with no chunks.
\<close>

theorem upload_fails_only_on_exception:
  "(\<forall>e st'. upload_document ev i name st = (Inl e, st') \<longrightarrow> st' = st) \<and>
   ((\<exists>e. fst (upload_document ev i name st) = Inl e) \<longleftrightarrow>
      (\<exists>e. save_upload ev (''uploads/'' @ i @ ''_'' @ name) = Some e) \<or>
      (\<exists>e. extract_text ev (''uploads/'' @ i @ ''_'' @ name) = Inl e) \<or>
      (\<exists>tx e. extract_text ev (''uploads/'' @ i @ ''_'' @ name) = Inr tx \<and>
               encode ev (make_chunks tx) = Inl e)) \<and>
   (\<forall>r st'. upload_document ev i name st = (Inr r, st') \<longrightarrow>
      (\<exists>tx vs. extract_text ev (''uploads/'' @ i @ ''_'' @ name) = Inr tx \<and>
         encode ev (make_chunks tx) = Inr vs \<and>
         documents st' = (documents st)(i \<mapsto>
           \<lparr>doc_filename = name, doc_path = ''uploads/'' @ i @ ''_'' @ name,
            doc_text = tx, doc_chunks = make_chunks tx\<rparr>) \<and>
         document_embeddings st' = (document_embeddings st)(i \<mapsto> vs))) \<and>
   (\<forall>tx vs. save_upload ev (''uploads/'' @ i @ ''_'' @ name) = None \<and>
      extract_text ev (''uploads/'' @ i @ ''_'' @ name) = Inr tx \<and>
      make_chunks tx = [] \<and> encode ev [] = Inr vs \<longrightarrow>
      (\<exists>r st' d. upload_document ev i name st = (Inr r, st') \<and>
         documents st' i = Some d \<and> doc_chunks d = [] \<and> document_embeddings st' i = Some vs))"
proof -
  have 1: "\<forall>e st'. upload_document ev i name st = (Inl e, st') \<longrightarrow> st' = st"
    using upload_document_fails by blast
  have 3: "\<forall>r st'. upload_document ev i name st = (Inr r, st') \<longrightarrow>
      (\<exists>tx vs. extract_text ev (''uploads/'' @ i @ ''_'' @ name) = Inr tx \<and>
         encode ev (make_chunks tx) = Inr vs \<and>
         documents st' = (documents st)(i \<mapsto>
           \<lparr>doc_filename = name, doc_path = ''uploads/'' @ i @ ''_'' @ name,
            doc_text = tx, doc_chunks = make_chunks tx\<rparr>) \<and>
         document_embeddings st' = (document_embeddings st)(i \<mapsto> vs))"
    using upload_document_stores [of ev i name st] by blast
  have 4: "\<forall>tx vs. save_upload ev (''uploads/'' @ i @ ''_'' @ name) = None \<and>
      extract_text ev (''uploads/'' @ i @ ''_'' @ name) = Inr tx \<and>
      make_chunks tx = [] \<and> encode ev [] = Inr vs \<longrightarrow>
      (\<exists>r st' d. upload_document ev i name st = (Inr r, st') \<and>
         documents st' i = Some d \<and> doc_chunks d = [] \<and> document_embeddings st' i = Some vs)"
    using upload_document_succeeds [of ev i name _ _ st] by fastforce
  show ?thesis using 1 upload_document_fails_iff [of ev i name st] 3 4 by blast
qed

theorem upload_fails_only_on_exception_witness:
  "save_upload (test_env [] Silent) (''uploads/'' @ ''d'' @ ''_'' @ ''f.txt'') = None \<and>
   extract_text (test_env [] Silent) (''uploads/'' @ ''d'' @ ''_'' @ ''f.txt'') = Inr [] \<and>
   make_chunks [] = [] \<and> encode (test_env [] Silent) [] = Inr [] \<and>
   (\<exists>r st' d. upload_document (test_env [] Silent) ''d'' ''f.txt'' (initial_state ''B'') = (Inr r, st') \<and>
      documents st' ''d'' = Some d \<and> doc_chunks d = [] \<and> document_embeddings st' ''d'' = Some []) \<and>
   extract_text failing_env (''uploads/'' @ ''d'' @ ''_'' @ ''f.xyz'') = Inl (LibraryError ''unsupported'') \<and>
   (\<exists>e. upload_document failing_env ''d'' ''f.xyz'' (initial_state ''B'') = (Inl e, initial_state ''B'')) \<and>
   save_upload unwritable_env (''uploads/'' @ ''d'' @ ''_'' @ ''sub/f.txt'') =
     Some (LibraryError ''No such file or directory'') \<and>
   (\<exists>e. upload_document unwritable_env ''d'' ''sub/f.txt'' (initial_state ''B'') =
      (Inl e, initial_state ''B''))"
proof -
  have h: "save_upload (test_env [] Silent) (''uploads/'' @ ''d'' @ ''_'' @ ''f.txt'') = None \<and>
     extract_text (test_env [] Silent) (''uploads/'' @ ''d'' @ ''_'' @ ''f.txt'') = Inr [] \<and>
     make_chunks [] = [] \<and> encode (test_env [] Silent) [] = Inr []"
    by (simp add: test_env_def unit_encode_def make_chunks_empty)
  have f: "extract_text failing_env (''uploads/'' @ ''d'' @ ''_'' @ ''f.xyz'') =
      Inl (LibraryError ''unsupported'')"
    by (simp add: failing_env_def)
  have u: "save_upload unwritable_env (''uploads/'' @ ''d'' @ ''_'' @ ''sub/f.txt'') =
      Some (LibraryError ''No such file or directory'')"
    by (simp add: unwritable_env_def)
  from upload_fails_only_on_exception [of "test_env [] Silent" "''d''" "''f.txt''" "initial_state ''B''"] h
  have 1: "\<exists>r st' d. upload_document (test_env [] Silent) ''d'' ''f.txt'' (initial_state ''B'') = (Inr r, st') \<and>
      documents st' ''d'' = Some d \<and> doc_chunks d = [] \<and> document_embeddings st' ''d'' = Some []"
    by blast
  from upload_fails_only_on_exception [of failing_env "''d''" "''f.xyz''" "initial_state ''B''"] f
  have "(\<exists>e. fst (upload_document failing_env ''d'' ''f.xyz'' (initial_state ''B'')) = Inl e) \<and>
     (\<forall>e st'. upload_document failing_env ''d'' ''f.xyz'' (initial_state ''B'') = (Inl e, st') \<longrightarrow>
        st' = initial_state ''B'')"
    by blast
  then have 2: "\<exists>e. upload_document failing_env ''d'' ''f.xyz'' (initial_state ''B'') =
      (Inl e, initial_state ''B'')"
    by (cases "upload_document failing_env ''d'' ''f.xyz'' (initial_state ''B'')") auto
  from upload_fails_only_on_exception [of unwritable_env "''d''" "''sub/f.txt''" "initial_state ''B''"] u
  have "(\<exists>e. fst (upload_document unwritable_env ''d'' ''sub/f.txt'' (initial_state ''B'')) = Inl e) \<and>
     (\<forall>e st'. upload_document unwritable_env ''d'' ''sub/f.txt'' (initial_state ''B'') = (Inl e, st') \<longrightarrow>
        st' = initial_state ''B'')"
    by blast
  then have 3: "\<exists>e. upload_document unwritable_env ''d'' ''sub/f.txt'' (initial_state ''B'') =
      (Inl e, initial_state ''B'')"
    by (cases "upload_document unwritable_env ''d'' ''sub/f.txt'' (initial_state ''B'')") auto
  show ?thesis using h f u 1 2 3 by blast
qed

text \<open>
  C3 as it is stated fails: the empty text gives zero chunks, and its upload succeeds and
  stores a document with no chunks under the new identifier.
\<close>

theorem upload_of_empty_text_is_stored:
  "make_chunks [] = [] \<and>
   upload_document (test_env [] Silent) ''d'' ''f.txt'' (initial_state ''B'') =
     (Inr [(''document_id'', ''d''), (''message'', ''Documento subido correctamente'')],
      \<lparr>documents = [''d'' \<mapsto>
          \<lparr>doc_filename = ''f.txt'', doc_path = ''uploads/d_f.txt'', doc_text = [],
           doc_chunks = []\<rparr>],
       document_embeddings = [''d'' \<mapsto> []],
       DEEPSEEK_API_KEY = ''B'', sent = []\<rparr>)"
  using make_chunks_empty upload_empty by simp

text \<open>
  C4 at the failing input. The default credential is \<open>B\<close> and the body of the request
  brings the credential \<open>A\<close>. The request model has no such field, so the credential is
  dropped: the one request that goes to the backend carries \<open>Bearer B\<close>. After the
  request the default credential is \<open>B\<close>.
\<close>

theorem request_credential_is_dropped:
  "map_of example_body ''api_key'' = Some ''A'' \<and> DEEPSEEK_API_KEY example_state = ''B'' \<and>
   (\<exists>st'. post_ask_question (test_env ''Hello world'' (Replies 200 ''the answer'')) example_body
        example_state = Some (Inr ''the answer'', st') \<and>
      map (\<lambda>r. map_of (headers r) ''Authorization'') (sent st') = [Some ''Bearer B''] \<and>
      DEEPSEEK_API_KEY st' = ''B'')"
  by (simp add: ask_example authorization_header) (simp add: example_body_def example_state_def)

text \<open>
  C7. With an embedder that returns one vector for each text, every document that an
  upload stores has as many vectors as chunks; this holds in every state that a sequence
  of requests leads to from the empty store, and the chunks and vectors stored under an
  identifier stay as they are through every request that does not upload under that
  identifier again.
\<close>

theorem chunks_and_vectors_stay_aligned:
  assumes "encode_ok (encode ev)"
  shows "(\<forall>r st' i name st. upload_document ev i name st = (Inr r, st') \<longrightarrow>
            (\<exists>d vs. documents st' i = Some d \<and> document_embeddings st' i = Some vs \<and>
                    length vs = length (doc_chunks d))) \<and>
         (\<forall>rs k st. run ev rs (initial_state k) = Some st \<longrightarrow> aligned st) \<and>
         (\<forall>rs st st' i. run ev rs st = Some st' \<and> i \<notin> uploaded_ids rs \<longrightarrow>
            documents st' i = documents st i \<and>
            document_embeddings st' i = document_embeddings st i)"
proof -
  have 1: "\<forall>r st' i name st. upload_document ev i name st = (Inr r, st') \<longrightarrow>
            (\<exists>d vs. documents st' i = Some d \<and> document_embeddings st' i = Some vs \<and>
                    length vs = length (doc_chunks d))"
  proof (intro allI impI)
    fix r st' i name st
    assume u: "upload_document ev i name st = (Inr r, st')"
    from upload_document_stores [OF u]
    obtain tx vs where s: "encode ev (make_chunks tx) = Inr vs"
      "documents st' = (documents st)(i \<mapsto>
             \<lparr>doc_filename = name, doc_path = ''uploads/'' @ i @ ''_'' @ name,
              doc_text = tx, doc_chunks = make_chunks tx\<rparr>)"
      "document_embeddings st' = (document_embeddings st)(i \<mapsto> vs)"
      by blast
    have "length vs = length (make_chunks tx)"
      using assms s(1) by (simp add: encode_ok_def)
    then show "\<exists>d vs. documents st' i = Some d \<and> document_embeddings st' i = Some vs \<and>
                    length vs = length (doc_chunks d)"
      using s(2,3) by simp
  qed
  have 2: "\<forall>rs k st. run ev rs (initial_state k) = Some st \<longrightarrow> aligned st"
    using run_aligned [OF assms aligned_initial] by blast
  have 3: "\<forall>rs st st' i. run ev rs st = Some st' \<and> i \<notin> uploaded_ids rs \<longrightarrow>
            documents st' i = documents st i \<and>
            document_embeddings st' i = document_embeddings st i"
    using run_keeps_document by blast
  show ?thesis using 1 2 3 by blast
qed

theorem chunks_and_vectors_stay_aligned_witness:
  "encode_ok (encode (test_env ''Hello world'' Silent)) \<and>
   upload_document (test_env ''Hello world'' Silent) ''d'' ''f.txt'' (initial_state ''B'') =
     (Inr [(''document_id'', ''d''), (''message'', ''Documento subido correctamente'')],
      example_state) \<and>
   (\<exists>d vs. documents example_state ''d'' = Some d \<and>
      document_embeddings example_state ''d'' = Some vs \<and> length vs = length (doc_chunks d))"
proof -
  have h: "encode_ok (encode (test_env ''Hello world'' Silent))"
    by (simp add: test_env_def unit_encode_ok)
  from chunks_and_vectors_stay_aligned [OF h] upload_hello [of Silent]
  show ?thesis using h by blast
qed

end
